theory Spec2Isabelle
  imports Main
begin

section \<open>JSON values and the fragment of ECMAScript the handlers use\<close>

text \<open>
  A request body is what \<^verbatim>\<open>express.json()\<close> hands to a handler: a parsed JSON value
  (the empty object when the request has no body). An object lists each of its keys once.
  \<open>JUndefined\<close> is the result of reading a property that the object does not have.
  A string is the list of its code units (\<open>length\<close> is what \<^verbatim>\<open>.length\<close> returns on it);
  HOL characters cover the code units below 256. Numbers are the integral ones: the
  handlers only ask of a number whether it is zero, or compare it with 4, 8 and 11000.
\<close>

datatype json =
    JUndefined
  | JNull
  | JBool bool
  | JNum int
  | JStr string
  | JArr "json list"
  | JObj "(string \<times> json) list"

text \<open>\<^verbatim>\<open>obj.key\<close> on a parsed body, for the own keys the handlers read.\<close>

fun js_get :: "json \<Rightarrow> string \<Rightarrow> json" where
  "js_get (JObj kvs) k = (case map_of kvs k of None \<Rightarrow> JUndefined | Some v \<Rightarrow> v)"
| "js_get _ k = JUndefined"

text \<open>\<^verbatim>\<open>!v\<close>: the falsy values are undefined, null, false, 0 and the empty string.\<close>

fun falsy :: "json \<Rightarrow> bool" where
  "falsy JUndefined = True"
| "falsy JNull = True"
| "falsy (JBool b) = (\<not> b)"
| "falsy (JNum n) = (n = 0)"
| "falsy (JStr s) = (s = [])"
| "falsy (JArr xs) = False"
| "falsy (JObj kvs) = False"

text \<open>
  \<^verbatim>\<open>v === process.env.X\<close>: an environment variable is a string, or undefined when it is
  not set; strict equality never converts.
\<close>

fun strict_eq_env :: "json \<Rightarrow> string option \<Rightarrow> bool" where
  "strict_eq_env (JStr s) (Some t) = (s = t)"
| "strict_eq_env JUndefined None = True"
| "strict_eq_env _ _ = False"

text \<open>
  \<^verbatim>\<open>v.length\<close>: reading a property of undefined or null throws a TypeError (\<open>None\<close>);
  a string and an array have their length, an object has it when it has such a key,
  a number and a boolean have none.
\<close>

fun length_prop :: "json \<Rightarrow> json option" where
  "length_prop JUndefined = None"
| "length_prop JNull = None"
| "length_prop (JBool b) = Some JUndefined"
| "length_prop (JNum n) = Some JUndefined"
| "length_prop (JStr s) = Some (JNum (int (length s)))"
| "length_prop (JArr xs) = Some (JNum (int (length xs)))"
| "length_prop (JObj kvs) = Some (js_get (JObj kvs) ''length'')"

text \<open>
  \<^verbatim>\<open>v < n\<close> for a number \<open>n\<close>: undefined converts to NaN, and every comparison with NaN is
  false; null is 0, false is 0, true is 1. A string, an array or an object (reached only
  through a \<^verbatim>\<open>length\<close> key of an object in the body) is converted by ECMAScript's
  ToPrimitive and ToNumber, which the model takes as the parameter \<open>coerce\<close>.
\<close>

fun js_lt :: "(json \<Rightarrow> int \<Rightarrow> bool) \<Rightarrow> json \<Rightarrow> int \<Rightarrow> bool" where
  "js_lt coerce JUndefined n = False"
| "js_lt coerce JNull n = (0 < n)"
| "js_lt coerce (JBool b) n = ((if b then 1 else 0) < n)"
| "js_lt coerce (JNum k) n = (k < n)"
| "js_lt coerce v n = coerce v n"

text \<open>\<^verbatim>\<open>v.length < n\<close>; \<open>None\<close> when reading the length throws.\<close>

definition length_lt :: "(json \<Rightarrow> int \<Rightarrow> bool) \<Rightarrow> json \<Rightarrow> int \<Rightarrow> bool option" where
  "length_lt coerce v n = map_option (\<lambda>l. js_lt coerce l n) (length_prop v)"

text \<open>A template literal prints a count in decimal.\<close>

fun digit :: "nat \<Rightarrow> char" where
  "digit n = ''0123456789'' ! (n mod 10)"

fun show_nat :: "nat \<Rightarrow> string" where
  "show_nat n = (if n < 10 then [digit n] else show_nat (n div 10) @ [digit n])"

section \<open>Configuration, failures and replies\<close>

record env =
  NODE_ENV :: "string option"
  ADMIN_REGISTER_TOKEN :: "string option"

text \<open>
  What a catch block reads of the value it caught: \<^verbatim>\<open>name\<close>, \<^verbatim>\<open>message\<close>, \<^verbatim>\<open>code\<close>,
  the keys and messages of \<^verbatim>\<open>errors\<close> (a validation failure carries them) and the keys of
  \<^verbatim>\<open>keyPattern\<close> (a duplicate-key failure carries them); \<open>None\<close> when the property is absent.
\<close>

record js_error =
  err_name :: string
  err_message :: string
  err_code :: json
  err_errors :: "(string \<times> string) list option"
  err_keyPattern :: "string list option"

text \<open>
  A handler answers with \<^verbatim>\<open>res.status(n).json(v)\<close> or \<^verbatim>\<open>res.sendFile(p)\<close>. \<open>Unhandled\<close>: the
  handler's promise rejects (a throw inside its catch block) and no reply is written.
\<close>

datatype reply =
    Json nat json
  | SendFile string
  | Unhandled

fun status :: "reply \<Rightarrow> nat option" where
  "status (Json n b) = Some n"
| "status (SendFile f) = None"
| "status Unhandled = None"

fun reply_body :: "reply \<Rightarrow> json" where
  "reply_body (Json n b) = b"
| "reply_body (SendFile f) = JUndefined"
| "reply_body Unhandled = JUndefined"

text \<open>The TypeError of a property read on undefined or null.\<close>

definition type_error :: js_error where
  "type_error =
     \<lparr>err_name = ''TypeError'', err_message = ''Cannot read properties of undefined'',
      err_code = JUndefined, err_errors = None, err_keyPattern = None\<rparr>"

text \<open>
  \<^verbatim>\<open>process.env.NODE_ENV === 'development' ? err.message : generic\<close>
\<close>

definition details :: "env \<Rightarrow> js_error \<Rightarrow> string \<Rightarrow> json" where
  "details e err generic =
     JStr (if NODE_ENV e = Some ''development'' then err_message err else generic)"

section \<open>The persistence gateway\<close>

text \<open>
  The Mongoose models are external to the repository. Each call a handler makes is an
  operation of the gateway on the state \<open>'s\<close> of the document store; it returns the
  rejection (\<open>Inl\<close>) or the result, with the new state when it writes.
\<close>

record user =
  u_usuario :: string
  u_email :: string
  u_password :: string
  u_fechaRegistro :: json

record 's gateway =
  respuesta_save :: "json \<Rightarrow> 's \<Rightarrow> js_error + (string \<times> 's)"
  respuesta_find :: "'s \<Rightarrow> js_error + json list"
  respuesta_count :: "'s \<Rightarrow> js_error + nat"
  respuesta_count_gte :: "int \<Rightarrow> 's \<Rightarrow> js_error + nat"
  respuesta_findByIdAndDelete :: "string \<Rightarrow> 's \<Rightarrow> js_error + (json option \<times> 's)"
  respuesta_deleteMany :: "'s \<Rightarrow> js_error + (nat \<times> 's)"
  user_findOne :: "json \<Rightarrow> 's \<Rightarrow> js_error + user option"
  user_save :: "json \<Rightarrow> json \<Rightarrow> json \<Rightarrow> 's \<Rightarrow> js_error + 's"

section \<open>The route handlers of \<^verbatim>\<open>src/backend/server.js\<close>\<close>

text \<open>
  Each handler is the body of its \<^verbatim>\<open>try\<close> block, with the \<^verbatim>\<open>catch\<close> block as a function
  of its own applied to whatever the gateway rejects with. A handler that writes returns
  the state of the store with its reply. Letters outside ASCII are written by their code
  unit: \<open>0xE1\<close> a-acute, \<open>0xED\<close> i-acute, \<open>0xF3\<close> o-acute, \<open>0xF1\<close> n-tilde.
\<close>

subsection \<open>POST /api/respuestas\<close>

definition nombre_puesto_obligatorios :: reply where
  "nombre_puesto_obligatorios =
     Json 400 (JObj [(''error'', JStr ''Nombre y puesto son campos obligatorios'')])"

definition post_respuestas_catch :: "env \<Rightarrow> js_error \<Rightarrow> reply" where
  "post_respuestas_catch e err =
     (if err_name err = ''ValidationError'' then
        (case err_errors err of
           None \<Rightarrow> Unhandled
         | Some fs \<Rightarrow>
             Json 400 (JObj
               [(''error'', JStr (''Error de validaci'' @ [CHR 0xF3] @ ''n'')),
                (''details'',
                 JArr (map (\<lambda>(k, m). JObj [(''field'', JStr k), (''message'', JStr m)]) fs))]))
      else
        Json 500 (JObj
          [(''error'', JStr ''Error al guardar la respuesta''),
           (''details'', JStr (err_message err)),
           (''errorName'', JStr (err_name err))]))"

definition post_respuestas :: "env \<Rightarrow> 's gateway \<Rightarrow> json \<Rightarrow> 's \<Rightarrow> reply \<times> 's" where
  "post_respuestas e gw body st =
     (if falsy (js_get body ''nombre'') \<or> falsy (js_get body ''puesto'') then
        (nombre_puesto_obligatorios, st)
      else
        (case respuesta_save gw body st of
           Inl err \<Rightarrow> (post_respuestas_catch e err, st)
         | Inr (new_id, st') \<Rightarrow>
             (Json 201 (JObj
                [(''mensaje'', JStr ''Respuesta guardada correctamente''),
                 (''id'', JStr new_id)]), st')))"

subsection \<open>GET /api/respuestas\<close>

definition get_respuestas_catch :: "env \<Rightarrow> js_error \<Rightarrow> reply" where
  "get_respuestas_catch e err =
     Json 500 (JObj
       [(''error'', JStr ''Error al obtener respuestas''),
        (''details'', details e err ''Error interno del servidor'')])"

definition get_respuestas :: "env \<Rightarrow> 's gateway \<Rightarrow> 's \<Rightarrow> reply" where
  "get_respuestas e gw st =
     (case respuesta_find gw st of
        Inl err \<Rightarrow> get_respuestas_catch e err
      | Inr respuestas \<Rightarrow> Json 200 (JArr respuestas))"

subsection \<open>GET /api/estadisticas\<close>

text \<open>
  \<open>now\<close> is what \<^verbatim>\<open>Date.now()\<close> returns (milliseconds), \<open>stamp\<close> what
  \<^verbatim>\<open>new Date().toISOString()\<close> returns when the reply is built.
\<close>

definition get_estadisticas_catch :: "env \<Rightarrow> js_error \<Rightarrow> reply" where
  "get_estadisticas_catch e err =
     Json 500 (JObj
       [(''error'', JStr (''Error al obtener estad'' @ [CHR 0xED] @ ''sticas'')),
        (''details'', details e err ''Error interno del servidor'')])"

definition get_estadisticas :: "env \<Rightarrow> 's gateway \<Rightarrow> int \<Rightarrow> string \<Rightarrow> 's \<Rightarrow> reply" where
  "get_estadisticas e gw now stamp st =
     (case respuesta_count gw st of
        Inl err \<Rightarrow> get_estadisticas_catch e err
      | Inr totalEncuestas \<Rightarrow>
          (case respuesta_count_gte gw (now - 7 * 24 * 60 * 60 * 1000) st of
             Inl err \<Rightarrow> get_estadisticas_catch e err
           | Inr ultimaSemana \<Rightarrow>
               Json 200 (JObj
                 [(''total'', JNum (int totalEncuestas)),
                  (''ultimaSemana'', JNum (int ultimaSemana)),
                  (''timestamp'', JStr stamp)])))"

subsection \<open>POST /api/login\<close>

definition credenciales_incorrectas :: reply where
  "credenciales_incorrectas = Json 401 (JObj [(''mensaje'', JStr ''Credenciales incorrectas'')])"

definition login_catch :: "env \<Rightarrow> js_error \<Rightarrow> reply" where
  "login_catch e err =
     Json 500 (JObj
       [(''error'', JStr ''Error en el servidor''),
        (''details'', details e err ''Error interno'')])"

definition login :: "env \<Rightarrow> 's gateway \<Rightarrow> json \<Rightarrow> 's \<Rightarrow> reply" where
  "login e gw body st =
     (let usuario = js_get body ''usuario''; password = js_get body ''password'' in
      if falsy usuario \<or> falsy password then
        Json 400 (JObj
          [(''mensaje'', JStr (''Usuario y contrase'' @ [CHR 0xF1] @ ''a son obligatorios''))])
      else
        (case user_findOne gw usuario st of
           Inl err \<Rightarrow> login_catch e err
         | Inr None \<Rightarrow> credenciales_incorrectas
         | Inr (Some u) \<Rightarrow>
             if JStr (u_password u) = password then
               Json 200 (JObj
                 [(''mensaje'', JStr ''Login exitoso''),
                  (''user'', JObj
                     [(''usuario'', JStr (u_usuario u)),
                      (''email'', JStr (u_email u)),
                      (''fechaRegistro'', u_fechaRegistro u)])])
             else credenciales_incorrectas))"

subsection \<open>POST /api/register\<close>

definition token_invalido :: reply where
  "token_invalido =
     Json 403 (JObj
       [(''mensaje'',
         JStr (''Token de autorizaci'' @ [CHR 0xF3] @ ''n inv'' @ [CHR 0xE1] @ ''lido''))])"

definition campos_obligatorios :: reply where
  "campos_obligatorios = Json 400 (JObj [(''mensaje'', JStr ''Todos los campos son obligatorios'')])"

definition password_corta :: reply where
  "password_corta =
     Json 400 (JObj
       [(''mensaje'',
         JStr (''La contrase'' @ [CHR 0xF1] @ ''a debe tener al menos 8 caracteres''))])"

definition usuario_corto :: reply where
  "usuario_corto =
     Json 400 (JObj [(''mensaje'', JStr ''El usuario debe tener al menos 4 caracteres'')])"

definition registrado :: reply where
  "registrado = Json 201 (JObj [(''mensaje'', JStr ''Administrador registrado exitosamente'')])"

text \<open>
  \<^verbatim>\<open>Object.keys(err.keyPattern)[0] === 'usuario'\<close>: reading the keys of an absent
  \<^verbatim>\<open>keyPattern\<close> throws inside the catch block; an empty one has no first key.
\<close>

definition register_catch :: "env \<Rightarrow> js_error \<Rightarrow> reply" where
  "register_catch e err =
     (if err_code err = JNum 11000 then
        (case err_keyPattern err of
           None \<Rightarrow> Unhandled
         | Some ks \<Rightarrow>
             Json 409 (JObj
               [(''mensaje'',
                 JStr ((if take 1 ks = [''usuario''] then ''Usuario'' else ''Email'')
                       @ '' ya existe''))]))
      else
        Json 500 (JObj
          [(''error'', JStr ''Error al registrar administrador''),
           (''details'', details e err ''Error interno del servidor'')]))"

text \<open>The handler after \<^verbatim>\<open>const { token, usuario, email, password } = req.body\<close>.\<close>

definition register_fields ::
  "env \<Rightarrow> (json \<Rightarrow> int \<Rightarrow> bool) \<Rightarrow> 's gateway \<Rightarrow> json \<Rightarrow> json \<Rightarrow> json \<Rightarrow> json \<Rightarrow> 's \<Rightarrow> reply \<times> 's"
where
  "register_fields e coerce gw token usuario email password st =
     (if \<not> strict_eq_env token (ADMIN_REGISTER_TOKEN e) then (token_invalido, st)
      else if falsy usuario \<or> falsy email \<or> falsy password then (campos_obligatorios, st)
      else
        (case length_lt coerce password 8 of
           None \<Rightarrow> (register_catch e type_error, st)
         | Some True \<Rightarrow> (password_corta, st)
         | Some False \<Rightarrow>
             (case length_lt coerce usuario 4 of
                None \<Rightarrow> (register_catch e type_error, st)
              | Some True \<Rightarrow> (usuario_corto, st)
              | Some False \<Rightarrow>
                  (case user_save gw usuario email password st of
                     Inl err \<Rightarrow> (register_catch e err, st)
                   | Inr st' \<Rightarrow> (registrado, st')))))"

definition register ::
  "env \<Rightarrow> (json \<Rightarrow> int \<Rightarrow> bool) \<Rightarrow> 's gateway \<Rightarrow> json \<Rightarrow> 's \<Rightarrow> reply \<times> 's"
where
  "register e coerce gw body st =
     register_fields e coerce gw
       (js_get body ''token'') (js_get body ''usuario'') (js_get body ''email'')
       (js_get body ''password'') st"

subsection \<open>DELETE /api/respuestas/:id and DELETE /api/respuestas\<close>

definition delete_respuesta_catch :: "env \<Rightarrow> js_error \<Rightarrow> reply" where
  "delete_respuesta_catch e err =
     Json 500 (JObj
       [(''error'', JStr ''Error al eliminar respuesta''),
        (''details'', details e err ''Error interno del servidor'')])"

definition delete_respuesta :: "env \<Rightarrow> 's gateway \<Rightarrow> string \<Rightarrow> 's \<Rightarrow> reply \<times> 's" where
  "delete_respuesta e gw ident st =
     (case respuesta_findByIdAndDelete gw ident st of
        Inl err \<Rightarrow> (delete_respuesta_catch e err, st)
      | Inr (None, st') \<Rightarrow> (Json 404 (JObj [(''mensaje'', JStr ''Respuesta no encontrada'')]), st')
      | Inr (Some respuesta, st') \<Rightarrow>
          (Json 200 (JObj [(''mensaje'', JStr ''Respuesta eliminada correctamente'')]), st'))"

definition delete_respuestas_catch :: "env \<Rightarrow> js_error \<Rightarrow> reply" where
  "delete_respuestas_catch e err =
     Json 500 (JObj
       [(''error'', JStr ''Error al eliminar respuestas''),
        (''details'', details e err ''Error interno del servidor'')])"

definition delete_respuestas :: "env \<Rightarrow> 's gateway \<Rightarrow> 's \<Rightarrow> reply \<times> 's" where
  "delete_respuestas e gw st =
     (case respuesta_deleteMany gw st of
        Inl err \<Rightarrow> (delete_respuestas_catch e err, st)
      | Inr (deletedCount, st') \<Rightarrow>
          (Json 200 (JObj
             [(''mensaje'', JStr (show_nat deletedCount @ '' respuestas eliminadas correctamente''))]),
           st'))"

subsection \<open>Routing, the catch-all, the API 404 and the error middleware\<close>

text \<open>
  Express tries the registered handlers in the order of registration and the first that
  matches method and path answers. A path is the list of its segments after the leading
  slash (\<^verbatim>\<open>/api/x\<close> is \<open>[''api'', ''x'']\<close>, a trailing slash leaves an empty last segment),
  in lower case, as routes match case-insensitively. \<^verbatim>\<open>app.get\<close> also answers HEAD.
  OPTIONS requests are answered by the CORS middleware before any route.
\<close>

datatype http_method = GET | HEAD | POST | PUT | PATCH | DELETE

text \<open>
  What the handlers ask of the file system: whether the static middleware registered at
  startup (none outside production) has a file for the path, and whether the two
  \<^verbatim>\<open>index.html\<close> exist.
\<close>

record files =
  static_serves :: "string list \<Rightarrow> bool"
  build_index :: bool
  public_index :: bool

datatype endpoint =
    Static
  | Health
  | PostRespuestas
  | GetRespuestas
  | GetEstadisticas
  | Login
  | Register
  | DeleteRespuesta string
  | DeleteRespuestas
  | CatchAll
  | ApiNotFound
  | NoRoute

definition is_get :: "http_method \<Rightarrow> bool" where
  "is_get m = (m = GET \<or> m = HEAD)"

text \<open>Routes are not strict: one trailing slash is ignored.\<close>

fun strip_slash :: "string list \<Rightarrow> string list" where
  "strip_slash [] = []"
| "strip_slash [s] = (if s = [] then [] else [s])"
| "strip_slash (s # t # ss) = s # strip_slash (t # ss)"

text \<open>\<^verbatim>\<open>/api/respuestas/:id\<close>: the parameter is one segment that is not empty.\<close>

fun respuesta_id :: "string list \<Rightarrow> string option" where
  "respuesta_id [a, b, i] =
     (if a = ''api'' \<and> b = ''respuestas'' \<and> i \<noteq> [] then Some i else None)"
| "respuesta_id _ = None"

text \<open>\<^verbatim>\<open>app.use('/api/*')\<close>: something, possibly empty, follows \<^verbatim>\<open>/api/\<close>.\<close>

fun under_api :: "string list \<Rightarrow> bool" where
  "under_api (a # s # ss) = (a = ''api'')"
| "under_api _ = False"

definition route :: "env \<Rightarrow> files \<Rightarrow> http_method \<Rightarrow> string list \<Rightarrow> endpoint" where
  "route e fs m p =
     (let q = strip_slash p in
      if NODE_ENV e = Some ''production'' \<and> is_get m \<and> static_serves fs p then Static
      else if is_get m \<and> q = [''api'', ''health''] then Health
      else if m = POST \<and> q = [''api'', ''respuestas''] then PostRespuestas
      else if is_get m \<and> q = [''api'', ''respuestas''] then GetRespuestas
      else if is_get m \<and> q = [''api'', ''estadisticas''] then GetEstadisticas
      else if m = POST \<and> q = [''api'', ''login''] then Login
      else if m = POST \<and> q = [''api'', ''register''] then Register
      else if m = DELETE \<and> respuesta_id q \<noteq> None then DeleteRespuesta (the (respuesta_id q))
      else if m = DELETE \<and> q = [''api'', ''respuestas''] then DeleteRespuestas
      else if is_get m then CatchAll
      else if under_api p then ApiNotFound
      else NoRoute)"

text \<open>
  The list both catch-all replies carry, and their messages; the rocket of the source
  (U+1F680, beyond one code unit) is written as its four UTF-8 bytes.
\<close>

definition availableEndpoints :: json where
  "availableEndpoints =
     JArr [JStr ''GET /api/health'', JStr ''GET /api/respuestas'', JStr ''POST /api/respuestas'',
           JStr ''POST /api/login'', JStr ''POST /api/register'']"

definition rocket :: string where
  "rocket = [CHR 0xF0, CHR 0x9F, CHR 0x9A, CHR 0x80]"

definition catch_all :: "env \<Rightarrow> files \<Rightarrow> reply" where
  "catch_all e fs =
     (if NODE_ENV e = Some ''production'' then
        (if build_index fs then SendFile ''build/index.html''
         else if public_index fs then SendFile ''public/index.html''
         else
           Json 200 (JObj
             [(''message'', JStr (rocket @ '' API funcionando correctamente'')),
              (''note'', JStr ''Esta es una API backend. Frontend no configurado.''),
              (''availableEndpoints'', availableEndpoints)]))
      else
        Json 200 (JObj
          [(''message'', JStr (rocket @ '' API en modo desarrollo'')),
           (''availableEndpoints'', availableEndpoints)]))"

definition api_not_found :: "string \<Rightarrow> reply" where
  "api_not_found originalUrl =
     Json 404 (JObj [(''error'', JStr ''Ruta no encontrada''), (''path'', JStr originalUrl)])"

text \<open>The reply to a request that reaches none of the API handlers above.\<close>

definition unmatched :: "env \<Rightarrow> files \<Rightarrow> http_method \<Rightarrow> string list \<Rightarrow> string \<Rightarrow> reply option" where
  "unmatched e fs m p originalUrl =
     (case route e fs m p of
        CatchAll \<Rightarrow> Some (catch_all e fs)
      | ApiNotFound \<Rightarrow> Some (api_not_found originalUrl)
      | _ \<Rightarrow> None)"

text \<open>The last middleware: what no handler caught.\<close>

definition error_middleware :: "js_error \<Rightarrow> string \<Rightarrow> string \<Rightarrow> reply" where
  "error_middleware err stamp originalUrl =
     Json 500 (JObj
       [(''error'', JStr ''Error interno del servidor''),
        (''details'', JStr (err_message err)),
        (''timestamp'', JStr stamp),
        (''path'', JStr originalUrl)])"

section \<open>The other revision of the server (\<^verbatim>\<open>src/unnamed/part_000\<close>)\<close>

text \<open>
  The second file is the same server with three differences: the catch block of
  POST /api/respuestas, the catch-all (registered in production only) and the error
  middleware. The remaining handlers are the same text.
\<close>

definition post_respuestas_catch_p0 :: "env \<Rightarrow> js_error \<Rightarrow> reply" where
  "post_respuestas_catch_p0 e err =
     Json 500 (JObj
       [(''error'', JStr ''Error al guardar la respuesta''),
        (''details'', details e err ''Error interno del servidor'')])"

definition post_respuestas_p0 :: "env \<Rightarrow> 's gateway \<Rightarrow> json \<Rightarrow> 's \<Rightarrow> reply \<times> 's" where
  "post_respuestas_p0 e gw body st =
     (if falsy (js_get body ''nombre'') \<or> falsy (js_get body ''puesto'') then
        (nombre_puesto_obligatorios, st)
      else
        (case respuesta_save gw body st of
           Inl err \<Rightarrow> (post_respuestas_catch_p0 e err, st)
         | Inr (new_id, st') \<Rightarrow>
             (Json 201 (JObj
                [(''mensaje'', JStr ''Respuesta guardada correctamente''),
                 (''id'', JStr new_id)]), st')))"

definition route_p0 :: "env \<Rightarrow> files \<Rightarrow> http_method \<Rightarrow> string list \<Rightarrow> endpoint" where
  "route_p0 e fs m p =
     (let q = strip_slash p in
      if NODE_ENV e = Some ''production'' \<and> is_get m \<and> static_serves fs p then Static
      else if is_get m \<and> q = [''api'', ''health''] then Health
      else if m = POST \<and> q = [''api'', ''respuestas''] then PostRespuestas
      else if is_get m \<and> q = [''api'', ''respuestas''] then GetRespuestas
      else if is_get m \<and> q = [''api'', ''estadisticas''] then GetEstadisticas
      else if m = POST \<and> q = [''api'', ''login''] then Login
      else if m = POST \<and> q = [''api'', ''register''] then Register
      else if m = DELETE \<and> respuesta_id q \<noteq> None then DeleteRespuesta (the (respuesta_id q))
      else if m = DELETE \<and> q = [''api'', ''respuestas''] then DeleteRespuestas
      else if NODE_ENV e = Some ''production'' \<and> is_get m then CatchAll
      else if under_api p then ApiNotFound
      else NoRoute)"

definition error_middleware_p0 :: "env \<Rightarrow> js_error \<Rightarrow> reply" where
  "error_middleware_p0 e err =
     Json 500 (JObj
       [(''error'', JStr ''Error interno del servidor''),
        (''details'', details e err ''Error interno'')])"

text \<open>
  The catch-all of this revision calls \<^verbatim>\<open>res.sendFile\<close> without asking whether the file
  exists. When it does not, \<^verbatim>\<open>sendFile\<close> passes the failure of the file system to the next
  error handler, which is the error middleware.
\<close>

definition enoent :: "string \<Rightarrow> js_error" where
  "enoent path =
     \<lparr>err_name = ''Error'',
      err_message = ''ENOENT: no such file or directory, stat '' @ path,
      err_code = JStr ''ENOENT'', err_errors = None, err_keyPattern = None\<rparr>"

definition catch_all_p0 :: "env \<Rightarrow> files \<Rightarrow> reply" where
  "catch_all_p0 e fs =
     (if build_index fs then SendFile ''build/index.html''
      else error_middleware_p0 e (enoent ''build/index.html''))"

definition unmatched_p0 :: "env \<Rightarrow> files \<Rightarrow> http_method \<Rightarrow> string list \<Rightarrow> string \<Rightarrow> reply option" where
  "unmatched_p0 e fs m p originalUrl =
     (case route_p0 e fs m p of
        CatchAll \<Rightarrow> Some (catch_all_p0 e fs)
      | ApiNotFound \<Rightarrow> Some (api_not_found originalUrl)
      | _ \<Rightarrow> None)"

section \<open>A document store in memory\<close>

text \<open>
  The collection of survey responses as a list of stored documents, each with its
  identifier, its \<^verbatim>\<open>createdAt\<close> (milliseconds) and the document as it is serialised.
  The four calls that take no input from the request get their documented meaning:
  \<^verbatim>\<open>find({}).sort({createdAt: -1})\<close> returns every document, newest first;
  \<^verbatim>\<open>countDocuments()\<close> counts them; \<^verbatim>\<open>countDocuments({createdAt: {$gte: d}})\<close> counts those
  created at \<open>d\<close> or later; \<^verbatim>\<open>deleteMany({})\<close> removes them all and reports how many.
  The calls that cast and validate request data against a schema stay those of the
  gateway \<open>base\<close>.
\<close>

record survey =
  s_id :: string
  s_createdAt :: int
  s_doc :: json

record store =
  st_respuestas :: "survey list"
  st_users :: "user list"

definition mem_gateway :: "store gateway \<Rightarrow> store gateway" where
  "mem_gateway base =
     base
       \<lparr>respuesta_find :=
          (\<lambda>st. Inr (map s_doc (sort_key (\<lambda>d. - s_createdAt d) (st_respuestas st)))),
        respuesta_count := (\<lambda>st. Inr (length (st_respuestas st))),
        respuesta_count_gte :=
          (\<lambda>d st. Inr (length (filter (\<lambda>r. d \<le> s_createdAt r) (st_respuestas st)))),
        respuesta_deleteMany :=
          (\<lambda>st. Inr (length (st_respuestas st), st\<lparr>st_respuestas := []\<rparr>))\<rparr>"

text \<open>A gateway whose every call is rejected with the same failure (a lost connection).\<close>

definition failing_gateway :: "js_error \<Rightarrow> 's gateway" where
  "failing_gateway err =
     \<lparr>respuesta_save = (\<lambda>body st. Inl err),
      respuesta_find = (\<lambda>st. Inl err),
      respuesta_count = (\<lambda>st. Inl err),
      respuesta_count_gte = (\<lambda>d st. Inl err),
      respuesta_findByIdAndDelete = (\<lambda>ident st. Inl err),
      respuesta_deleteMany = (\<lambda>st. Inl err),
      user_findOne = (\<lambda>q st. Inl err),
      user_save = (\<lambda>usuario email password st. Inl err)\<rparr>"

section \<open>Example configurations, requests and gateways\<close>

text \<open>
  Concrete inputs at which the theorems below are instantiated: three deployment modes,
  request bodies, three failures a gateway may reject with, a comparison parameter that
  never holds, a gateway over a store that only counts its documents (with one
  administrator, \<^verbatim>\<open>admin\<close>), a store with two responses and a file system with no
  frontend.
\<close>

definition dev_env :: env where
  "dev_env = \<lparr>NODE_ENV = Some ''development'', ADMIN_REGISTER_TOKEN = Some ''s3cret''\<rparr>"

definition prod_env :: env where
  "prod_env = \<lparr>NODE_ENV = Some ''production'', ADMIN_REGISTER_TOKEN = Some ''s3cret''\<rparr>"

definition unset_env :: env where
  "unset_env = \<lparr>NODE_ENV = None, ADMIN_REGISTER_TOKEN = Some ''s3cret''\<rparr>"

definition register_body :: "json \<Rightarrow> json \<Rightarrow> json \<Rightarrow> json \<Rightarrow> json" where
  "register_body t u m p = JObj [(''token'', t), (''usuario'', u), (''email'', m), (''password'', p)]"

definition login_body :: "json \<Rightarrow> json \<Rightarrow> json" where
  "login_body u p = JObj [(''usuario'', u), (''password'', p)]"

definition connection_lost :: js_error where
  "connection_lost =
     \<lparr>err_name = ''MongoNetworkError'', err_message = ''connection lost'',
      err_code = JUndefined, err_errors = None, err_keyPattern = None\<rparr>"

definition validation_failure :: js_error where
  "validation_failure =
     \<lparr>err_name = ''ValidationError'', err_message = ''User validation failed'',
      err_code = JUndefined, err_errors = Some [(''email'', ''Cast to string failed'')],
      err_keyPattern = None\<rparr>"

definition duplicate_key :: "string \<Rightarrow> js_error" where
  "duplicate_key k =
     \<lparr>err_name = ''MongoServerError'', err_message = ''E11000 duplicate key error'',
      err_code = JNum 11000, err_errors = None, err_keyPattern = Some [k]\<rparr>"

definition never :: "json \<Rightarrow> int \<Rightarrow> bool" where
  "never v n = False"

definition counting_gateway :: "nat gateway" where
  "counting_gateway =
     \<lparr>respuesta_save = (\<lambda>body n. Inr (show_nat n, Suc n)),
      respuesta_find = (\<lambda>n. Inr []),
      respuesta_count = (\<lambda>n. Inr n),
      respuesta_count_gte = (\<lambda>d n. Inr n),
      respuesta_findByIdAndDelete = (\<lambda>ident n. Inr (None, n)),
      respuesta_deleteMany = (\<lambda>n. Inr (n, 0)),
      user_findOne =
        (\<lambda>q n. Inr (if q = JStr ''admin'' then
                        Some \<lparr>u_usuario = ''admin'', u_email = ''admin@mercado.pe'',
                              u_password = ''correcta-123'', u_fechaRegistro = JNull\<rparr>
                      else None)),
      user_save = (\<lambda>usuario email password n. Inr (Suc n))\<rparr>"

definition two_surveys :: store where
  "two_surveys =
     \<lparr>st_respuestas =
        [\<lparr>s_id = ''a'', s_createdAt = 1000, s_doc = JObj [(''nombre'', JStr ''Ana'')]\<rparr>,
         \<lparr>s_id = ''b'', s_createdAt = 2000, s_doc = JObj [(''nombre'', JStr ''Luis'')]\<rparr>],
      st_users = []\<rparr>"

definition no_files :: files where
  "no_files = \<lparr>static_serves = (\<lambda>p. False), build_index = False, public_index = False\<rparr>"

definition built_files :: files where
  "built_files = \<lparr>static_serves = (\<lambda>p. False), build_index = True, public_index = False\<rparr>"

section \<open>Auxiliary facts\<close>

declare show_nat.simps [simp del]

lemma show_nat_small: "n < 10 \<Longrightarrow> show_nat n = [digit n]"
  by (simp add: show_nat.simps)

lemma falsy_length_prop: "\<not> falsy v \<Longrightarrow> length_prop v \<noteq> None"
  by (cases v) auto

lemma truthy_length_lt: "\<not> falsy v \<Longrightarrow> \<exists>b. length_lt coerce v n = Some b"
  by (cases v) (auto simp: length_lt_def)

lemma length_lt_JStr: "length_lt coerce (JStr s) n = Some (int (length s) < n)"
  by (simp add: length_lt_def)

lemma length_lt_JArr: "length_lt coerce (JArr xs) n = Some (int (length xs) < n)"
  by (simp add: length_lt_def)

lemma length_lt_JBool: "length_lt coerce (JBool b) n = Some False"
  by (simp add: length_lt_def)

lemmas replies =
  token_invalido_def campos_obligatorios_def password_corta_def usuario_corto_def registrado_def

lemmas catches =
  get_respuestas_catch_def get_estadisticas_catch_def login_catch_def
  delete_respuesta_catch_def delete_respuestas_catch_def

text \<open>A GET or HEAD request never reaches the 404 handler of \<^verbatim>\<open>server.js\<close>.\<close>

lemma get_never_api_not_found: "is_get m \<Longrightarrow> route e fs m p \<noteq> ApiNotFound"
  by (simp add: route_def Let_def)

text \<open>
  The catch block of POST /api/respuestas and the error middleware of \<^verbatim>\<open>server.js\<close> put
  the message of the failure in the reply in every mode; those of the other revision
  do so in development only.
\<close>

lemma post_respuestas_shows_message:
  "post_respuestas prod_env (failing_gateway connection_lost)
     (JObj [(''nombre'', JStr ''Ana''), (''puesto'', JStr ''Vendedora'')]) (0::nat) =
   (Json 500 (JObj
      [(''error'', JStr ''Error al guardar la respuesta''),
       (''details'', JStr ''connection lost''),
       (''errorName'', JStr ''MongoNetworkError'')]), 0)"
  by (simp add: post_respuestas_def post_respuestas_catch_def failing_gateway_def
        connection_lost_def)

lemma error_middleware_shows_message:
  "js_get (reply_body (error_middleware err stamp url)) ''details'' = JStr (err_message err)"
  by (simp add: error_middleware_def)

lemma p0_generic_outside_development:
  "NODE_ENV e \<noteq> Some ''development'' \<Longrightarrow>
   post_respuestas_catch_p0 e (err\<lparr>err_message := m\<rparr>) = post_respuestas_catch_p0 e err \<and>
   error_middleware_p0 e (err\<lparr>err_message := m\<rparr>) = error_middleware_p0 e err"
  by (simp add: post_respuestas_catch_p0_def error_middleware_p0_def details_def)

text \<open>
  The checks of register in their order. A wrong token is answered first, then a missing
  field. When usuario and password are strings, the password shorter than 8 is answered
  next, then the usuario shorter than 4, and only then is the gateway asked to save.
\<close>

lemma register_order_on_strings:
  "(\<not> strict_eq_env (js_get body ''token'') (ADMIN_REGISTER_TOKEN e) \<longrightarrow>
      register e coerce gw body st = (token_invalido, st)) \<and>
   (strict_eq_env (js_get body ''token'') (ADMIN_REGISTER_TOKEN e) \<and>
    (falsy (js_get body ''usuario'') \<or> falsy (js_get body ''email'') \<or>
     falsy (js_get body ''password'')) \<longrightarrow>
      register e coerce gw body st = (campos_obligatorios, st)) \<and>
   (strict_eq_env (js_get body ''token'') (ADMIN_REGISTER_TOKEN e) \<and>
    js_get body ''usuario'' = JStr u \<and> u \<noteq> [] \<and> \<not> falsy (js_get body ''email'') \<and>
    js_get body ''password'' = JStr p \<and> p \<noteq> [] \<longrightarrow>
      register e coerce gw body st =
        (if length p < 8 then (password_corta, st)
         else if length u < 4 then (usuario_corto, st)
         else (case user_save gw (JStr u) (js_get body ''email'') (JStr p) st of
                 Inl err \<Rightarrow> (register_catch e err, st)
               | Inr st' \<Rightarrow> (registrado, st'))))"
  by (auto simp: register_def register_fields_def length_lt_def)

section \<open>The claims\<close>

subsection \<open>C1: the order of the checks of POST /api/register\<close>

text \<open>
  C1. Every register request should pass the checks in order: the token (403), the
  presence of the three fields (400), a password of at least 8 characters (400
  otherwise), a usuario of at least 4 (400 otherwise), and only then be saved. The order
  is the handler's (\<open>register_order_on_strings\<close>), but the length rules read \<^verbatim>\<open>.length\<close>
  without asking whether the value is a string. The request with the right token, usuario
  \<^verbatim>\<open>admin\<close> and the password sent as the number 1234567 is not answered with the 400 of the
  password rule, whatever the gateway does: it is handed to the gateway, and when the
  gateway saves it the reply is 201.
\<close>

theorem register_numeric_password_not_rejected:
  "register prod_env coerce gw
       (register_body (JStr ''s3cret'') (JStr ''admin'') (JStr ''admin@mercado.pe'') (JNum 1234567))
       st =
     (case user_save gw (JStr ''admin'') (JStr ''admin@mercado.pe'') (JNum 1234567) st of
        Inl err \<Rightarrow> (register_catch prod_env err, st)
      | Inr st' \<Rightarrow> (registrado, st')) \<and>
   fst (register prod_env coerce gw
          (register_body (JStr ''s3cret'') (JStr ''admin'') (JStr ''admin@mercado.pe'')
             (JNum 1234567)) st) \<noteq> password_corta \<and>
   register prod_env never counting_gateway
       (register_body (JStr ''s3cret'') (JStr ''admin'') (JStr ''admin@mercado.pe'') (JNum 1234567))
       0 = (registrado, 1)"
proof -
  let ?b = "register_body (JStr ''s3cret'') (JStr ''admin'') (JStr ''admin@mercado.pe'')
              (JNum 1234567)"
  have tok: "ADMIN_REGISTER_TOKEN prod_env = Some ''s3cret''"
    by (simp add: prod_env_def)
  have a: "register prod_env c g ?b s =
     (case user_save g (JStr ''admin'') (JStr ''admin@mercado.pe'') (JNum 1234567) s of
        Inl err \<Rightarrow> (register_catch prod_env err, s)
      | Inr s' \<Rightarrow> (registrado, s'))" for c and g :: "'t gateway" and s
    by (simp add: register_def register_fields_def register_body_def tok length_lt_def)
  have b: "fst (register prod_env coerce gw ?b st) \<noteq> password_corta"
    by (simp add: a register_catch_def password_corta_def registrado_def
             split: sum.splits option.splits)
  have c: "register prod_env never counting_gateway ?b 0 = (registrado, 1)"
    by (simp add: a counting_gateway_def)
  from a [of coerce gw st] b c show ?thesis by simp
qed

subsection \<open>C2: the pre-validation of POST /api/respuestas\<close>

text \<open>
  C2. For every submission whose body lacks nombre or puesto, or has either as the empty
  string, the reply is 400 and the store is as it was; the gateway is not called. No other
  field is looked at before the gateway: the flat 400 is the reply exactly when nombre or
  puesto is falsy, and when both are truthy the reply is decided by what the gateway does
  with the whole body. Both revisions of the handler agree on this.
\<close>

theorem post_respuestas_prevalidation:
  "(js_get body ''nombre'' = JUndefined \<or> js_get body ''nombre'' = JStr [] \<or>
    js_get body ''puesto'' = JUndefined \<or> js_get body ''puesto'' = JStr [] \<longrightarrow>
      post_respuestas e gw body st = (nombre_puesto_obligatorios, st) \<and>
      post_respuestas_p0 e gw body st = (nombre_puesto_obligatorios, st)) \<and>
   (fst (post_respuestas e gw body st) = nombre_puesto_obligatorios \<longleftrightarrow>
      falsy (js_get body ''nombre'') \<or> falsy (js_get body ''puesto'')) \<and>
   (fst (post_respuestas_p0 e gw body st) = nombre_puesto_obligatorios \<longleftrightarrow>
      falsy (js_get body ''nombre'') \<or> falsy (js_get body ''puesto'')) \<and>
   (\<not> falsy (js_get body ''nombre'') \<and> \<not> falsy (js_get body ''puesto'') \<longrightarrow>
      post_respuestas e gw body st =
        (case respuesta_save gw body st of
           Inl err \<Rightarrow> (post_respuestas_catch e err, st)
         | Inr (new_id, st') \<Rightarrow>
             (Json 201 (JObj [(''mensaje'', JStr ''Respuesta guardada correctamente''),
                              (''id'', JStr new_id)]), st')) \<and>
      post_respuestas_p0 e gw body st =
        (case respuesta_save gw body st of
           Inl err \<Rightarrow> (post_respuestas_catch_p0 e err, st)
         | Inr (new_id, st') \<Rightarrow>
             (Json 201 (JObj [(''mensaje'', JStr ''Respuesta guardada correctamente''),
                              (''id'', JStr new_id)]), st')))"
proof -
  have a: "js_get body ''nombre'' = JUndefined \<or> js_get body ''nombre'' = JStr [] \<or>
      js_get body ''puesto'' = JUndefined \<or> js_get body ''puesto'' = JStr [] \<longrightarrow>
      post_respuestas e gw body st = (nombre_puesto_obligatorios, st) \<and>
      post_respuestas_p0 e gw body st = (nombre_puesto_obligatorios, st)"
    by (auto simp: post_respuestas_def post_respuestas_p0_def)
  have b: "fst (post_respuestas e gw body st) = nombre_puesto_obligatorios \<longleftrightarrow>
      falsy (js_get body ''nombre'') \<or> falsy (js_get body ''puesto'')"
    by (auto simp: post_respuestas_def post_respuestas_catch_def nombre_puesto_obligatorios_def
             split: sum.splits option.splits prod.splits)
  have c: "fst (post_respuestas_p0 e gw body st) = nombre_puesto_obligatorios \<longleftrightarrow>
      falsy (js_get body ''nombre'') \<or> falsy (js_get body ''puesto'')"
    by (auto simp: post_respuestas_p0_def post_respuestas_catch_p0_def
               nombre_puesto_obligatorios_def
             split: sum.splits option.splits prod.splits)
  have d: "\<not> falsy (js_get body ''nombre'') \<and> \<not> falsy (js_get body ''puesto'') \<longrightarrow>
      post_respuestas e gw body st =
        (case respuesta_save gw body st of
           Inl err \<Rightarrow> (post_respuestas_catch e err, st)
         | Inr (new_id, st') \<Rightarrow>
             (Json 201 (JObj [(''mensaje'', JStr ''Respuesta guardada correctamente''),
                              (''id'', JStr new_id)]), st')) \<and>
      post_respuestas_p0 e gw body st =
        (case respuesta_save gw body st of
           Inl err \<Rightarrow> (post_respuestas_catch_p0 e err, st)
         | Inr (new_id, st') \<Rightarrow>
             (Json 201 (JObj [(''mensaje'', JStr ''Respuesta guardada correctamente''),
                              (''id'', JStr new_id)]), st'))"
    by (simp add: post_respuestas_def post_respuestas_p0_def)
  from a b c d show ?thesis by blast
qed

text \<open>
  A body without puesto and a body with an empty nombre are answered 400 with the three
  stored documents untouched; with both fields the body reaches the gateway, although
  every other required field of the schema is missing.
\<close>

theorem post_respuestas_prevalidation_witness:
  "post_respuestas prod_env counting_gateway (JObj [(''nombre'', JStr ''Ana'')]) 3
     = (nombre_puesto_obligatorios, 3) \<and>
   post_respuestas prod_env counting_gateway
       (JObj [(''nombre'', JStr []), (''puesto'', JStr ''Vendedora'')]) 3
     = (nombre_puesto_obligatorios, 3) \<and>
   post_respuestas prod_env counting_gateway
       (JObj [(''nombre'', JStr ''Ana''), (''puesto'', JStr ''Vendedora'')]) 3
     = (Json 201 (JObj [(''mensaje'', JStr ''Respuesta guardada correctamente''),
                        (''id'', JStr ''3'')]), 4)"
proof -
  note t = post_respuestas_prevalidation
  have 1: "post_respuestas prod_env counting_gateway (JObj [(''nombre'', JStr ''Ana'')]) 3
     = (nombre_puesto_obligatorios, 3)"
    by (rule t [THEN conjunct1, THEN mp, THEN conjunct1]) simp
  have 2: "post_respuestas prod_env counting_gateway
       (JObj [(''nombre'', JStr []), (''puesto'', JStr ''Vendedora'')]) 3
     = (nombre_puesto_obligatorios, 3)"
    by (rule t [THEN conjunct1, THEN mp, THEN conjunct1]) simp
  have 3: "post_respuestas prod_env counting_gateway
       (JObj [(''nombre'', JStr ''Ana''), (''puesto'', JStr ''Vendedora'')]) 3
     = (case respuesta_save counting_gateway
               (JObj [(''nombre'', JStr ''Ana''), (''puesto'', JStr ''Vendedora'')]) 3 of
           Inl err \<Rightarrow> (post_respuestas_catch prod_env err, 3)
         | Inr (new_id, st') \<Rightarrow>
             (Json 201 (JObj [(''mensaje'', JStr ''Respuesta guardada correctamente''),
                              (''id'', JStr new_id)]), st'))"
    by (rule t [THEN conjunct2, THEN conjunct2, THEN conjunct2, THEN mp, THEN conjunct1]) simp
  from 1 2 3 show ?thesis by (simp add: counting_gateway_def show_nat_small)
qed

subsection \<open>C3: POST /api/login does not tell an unknown user from a wrong password\<close>

text \<open>
  C3. Take two login requests with non-empty usuario and password: for the first the
  lookup finds no user, for the second it finds one whose stored password differs from
  the one supplied. Their replies are identical: 401 with the same message.
\<close>

theorem login_generic_401:
  assumes "\<not> falsy (js_get b1 ''usuario'')" and "\<not> falsy (js_get b1 ''password'')"
    and "\<not> falsy (js_get b2 ''usuario'')" and "\<not> falsy (js_get b2 ''password'')"
    and "user_findOne gw1 (js_get b1 ''usuario'') st1 = Inr None"
    and "user_findOne gw2 (js_get b2 ''usuario'') st2 = Inr (Some u)"
    and "JStr (u_password u) \<noteq> js_get b2 ''password''"
  shows "login e gw1 b1 st1 = login e gw2 b2 st2 \<and>
         login e gw1 b1 st1 = Json 401 (JObj [(''mensaje'', JStr ''Credenciales incorrectas'')])"
  using assms by (simp add: login_def credenciales_incorrectas_def)

text \<open>The unknown user \<^verbatim>\<open>nadie\<close> and the administrator with a wrong password.\<close>

theorem login_generic_401_witness:
  "login prod_env counting_gateway (login_body (JStr ''nadie'') (JStr ''correcta-123'')) 0
     = login prod_env counting_gateway (login_body (JStr ''admin'') (JStr ''equivocada'')) 0 \<and>
   login prod_env counting_gateway (login_body (JStr ''nadie'') (JStr ''correcta-123'')) 0
     = Json 401 (JObj [(''mensaje'', JStr ''Credenciales incorrectas'')])"
proof (rule login_generic_401)
  show "\<not> falsy (js_get (login_body (JStr ''nadie'') (JStr ''correcta-123'')) ''usuario'')"
    by (simp add: login_body_def)
  show "\<not> falsy (js_get (login_body (JStr ''nadie'') (JStr ''correcta-123'')) ''password'')"
    by (simp add: login_body_def)
  show "\<not> falsy (js_get (login_body (JStr ''admin'') (JStr ''equivocada'')) ''usuario'')"
    by (simp add: login_body_def)
  show "\<not> falsy (js_get (login_body (JStr ''admin'') (JStr ''equivocada'')) ''password'')"
    by (simp add: login_body_def)
  show "user_findOne counting_gateway
          (js_get (login_body (JStr ''nadie'') (JStr ''correcta-123'')) ''usuario'') 0 = Inr None"
    by (simp add: login_body_def counting_gateway_def)
  show "user_findOne counting_gateway
          (js_get (login_body (JStr ''admin'') (JStr ''equivocada'')) ''usuario'') 0
        = Inr (Some \<lparr>u_usuario = ''admin'', u_email = ''admin@mercado.pe'',
                      u_password = ''correcta-123'', u_fechaRegistro = JNull\<rparr>)"
    by (simp add: login_body_def counting_gateway_def)
  show "JStr (u_password \<lparr>u_usuario = ''admin'', u_email = ''admin@mercado.pe'',
                      u_password = ''correcta-123'', u_fechaRegistro = JNull\<rparr>)
        \<noteq> js_get (login_body (JStr ''admin'') (JStr ''equivocada'')) ''password''"
    by (simp add: login_body_def)
qed

subsection \<open>C4: unmatched paths under /api\<close>

text \<open>
  C4. Every request under the /api prefix that matches none of the endpoints should be
  answered 404 with the path echoed, whatever its method. The catch-all \<^verbatim>\<open>app.get('*')\<close> is
  registered before the 404 handler, so a GET that matches no endpoint is answered by the
  catch-all: in development \<^verbatim>\<open>GET /api/no-existe\<close> gets 200 with the list of endpoints, and
  in production without a frontend 200 with the production message; the same path with
  POST reaches the 404 handler. In the other revision the catch-all exists in production
  only: there the same GET is answered with \<^verbatim>\<open>index.html\<close> when the frontend is built and
  with the 500 of the error middleware when it is not; in development it gets the 404.
\<close>

theorem get_under_api_reaches_catch_all:
  "unmatched dev_env no_files GET [''api'', ''no-existe''] ''/api/no-existe'' =
     Some (Json 200 (JObj
       [(''message'', JStr (rocket @ '' API en modo desarrollo'')),
        (''availableEndpoints'', availableEndpoints)])) \<and>
   unmatched prod_env no_files GET [''api'', ''no-existe''] ''/api/no-existe'' =
     Some (Json 200 (JObj
       [(''message'', JStr (rocket @ '' API funcionando correctamente'')),
        (''note'', JStr ''Esta es una API backend. Frontend no configurado.''),
        (''availableEndpoints'', availableEndpoints)])) \<and>
   unmatched dev_env no_files POST [''api'', ''no-existe''] ''/api/no-existe'' =
     Some (Json 404 (JObj
       [(''error'', JStr ''Ruta no encontrada''), (''path'', JStr ''/api/no-existe'')])) \<and>
   unmatched_p0 prod_env built_files GET [''api'', ''no-existe''] ''/api/no-existe'' =
     Some (SendFile ''build/index.html'') \<and>
   unmatched_p0 prod_env no_files GET [''api'', ''no-existe''] ''/api/no-existe'' =
     Some (Json 500 (JObj
       [(''error'', JStr ''Error interno del servidor''), (''details'', JStr ''Error interno'')])) \<and>
   unmatched_p0 dev_env no_files GET [''api'', ''no-existe''] ''/api/no-existe'' =
     Some (Json 404 (JObj
       [(''error'', JStr ''Ruta no encontrada''), (''path'', JStr ''/api/no-existe'')]))"
  by (simp add: unmatched_def unmatched_p0_def route_def route_p0_def is_get_def catch_all_def
        catch_all_p0_def error_middleware_p0_def details_def api_not_found_def dev_env_def
        prod_env_def no_files_def built_files_def)

subsection \<open>C5: how the handlers map the failures they catch\<close>

text \<open>
  C5, as stated: every handler maps a schema validation failure to 400, a duplicate key
  to 409 and anything else to 500. It fails: a validation failure during register (here
  an email that is an object, which passes the handler's own checks and is refused by
  the schema) is answered 500.
\<close>

theorem uniform_mapping_counterexample:
  "fst (register prod_env never (failing_gateway validation_failure)
          (register_body (JStr ''s3cret'') (JStr ''admin'') (JObj [(''a'', JNum 1)])
             (JStr ''12345678'')) (0::nat))
     = Json 500 (JObj
         [(''error'', JStr ''Error al registrar administrador''),
          (''details'', JStr ''Error interno del servidor'')])"
  by (simp add: register_def register_fields_def register_catch_def failing_gateway_def
        validation_failure_def register_body_def prod_env_def length_lt_def details_def)

text \<open>
  C5, amended: each handler has a mapping of its own. The catch block of submit answers
  a failure named \<^verbatim>\<open>ValidationError\<close> that carries its per-field errors with 400 and one
  field and message per error, and a failure of any other name with 500. The catch block
  of register answers a failure with code 11000 that carries a key pattern with 409,
  naming \<^verbatim>\<open>Usuario\<close> when the first key of the pattern is \<^verbatim>\<open>usuario\<close> and \<^verbatim>\<open>Email\<close> otherwise
  (also when the pattern has no key), and a failure of any other code with 500. The
  catch blocks of list, statistics, login, delete-one and delete-all, and that of submit
  in the other revision, answer every failure with 500.
\<close>

theorem failure_mapping_per_handler:
  "(err_name err = ''ValidationError'' \<and> err_errors err = Some fs \<longrightarrow>
      post_respuestas_catch e err =
        Json 400 (JObj
          [(''error'', JStr (''Error de validaci'' @ [CHR 0xF3] @ ''n'')),
           (''details'',
            JArr (map (\<lambda>(k, m). JObj [(''field'', JStr k), (''message'', JStr m)]) fs))])) \<and>
   (err_name err \<noteq> ''ValidationError'' \<longrightarrow>
      post_respuestas_catch e err =
        Json 500 (JObj
          [(''error'', JStr ''Error al guardar la respuesta''),
           (''details'', JStr (err_message err)),
           (''errorName'', JStr (err_name err))])) \<and>
   (err_code err = JNum 11000 \<and> err_keyPattern err = Some ks \<longrightarrow>
      register_catch e err =
        Json 409 (JObj
          [(''mensaje'',
            JStr ((case ks of
                     [] \<Rightarrow> ''Email''
                   | k # rest \<Rightarrow> if k = ''usuario'' then ''Usuario'' else ''Email'')
                  @ '' ya existe''))])) \<and>
   (err_code err \<noteq> JNum 11000 \<longrightarrow> status (register_catch e err) = Some 500) \<and>
   status (post_respuestas_catch_p0 e err) = Some 500 \<and>
   status (get_respuestas_catch e err) = Some 500 \<and>
   status (get_estadisticas_catch e err) = Some 500 \<and>
   status (login_catch e err) = Some 500 \<and>
   status (delete_respuesta_catch e err) = Some 500 \<and>
   status (delete_respuestas_catch e err) = Some 500"
  by (simp add: post_respuestas_catch_def register_catch_def post_respuestas_catch_p0_def catches
           split: list.splits)

theorem failure_mapping_per_handler_witness:
  "post_respuestas_catch prod_env validation_failure =
     Json 400 (JObj
       [(''error'', JStr (''Error de validaci'' @ [CHR 0xF3] @ ''n'')),
        (''details'',
         JArr [JObj [(''field'', JStr ''email''), (''message'', JStr ''Cast to string failed'')]])]) \<and>
   post_respuestas_catch prod_env connection_lost =
     Json 500 (JObj
       [(''error'', JStr ''Error al guardar la respuesta''),
        (''details'', JStr ''connection lost''),
        (''errorName'', JStr ''MongoNetworkError'')]) \<and>
   register_catch prod_env (duplicate_key ''usuario'') =
     Json 409 (JObj [(''mensaje'', JStr ''Usuario ya existe'')]) \<and>
   register_catch prod_env (duplicate_key ''email'') =
     Json 409 (JObj [(''mensaje'', JStr ''Email ya existe'')]) \<and>
   register_catch prod_env ((duplicate_key ''email'')\<lparr>err_keyPattern := Some []\<rparr>) =
     Json 409 (JObj [(''mensaje'', JStr ''Email ya existe'')]) \<and>
   status (register_catch prod_env validation_failure) = Some 500"
proof -
  note t = failure_mapping_per_handler
  have 1: "post_respuestas_catch prod_env validation_failure =
     Json 400 (JObj
       [(''error'', JStr (''Error de validaci'' @ [CHR 0xF3] @ ''n'')),
        (''details'',
         JArr (map (\<lambda>(k, m). JObj [(''field'', JStr k), (''message'', JStr m)])
                 [(''email'', ''Cast to string failed'')]))])"
    by (rule t [THEN conjunct1, THEN mp]) (simp add: validation_failure_def)
  have 2: "post_respuestas_catch prod_env connection_lost =
     Json 500 (JObj
       [(''error'', JStr ''Error al guardar la respuesta''),
        (''details'', JStr (err_message connection_lost)),
        (''errorName'', JStr (err_name connection_lost))])"
    by (rule t [THEN conjunct2, THEN conjunct1, THEN mp]) (simp add: connection_lost_def)
  have 3: "register_catch prod_env (duplicate_key ''usuario'') =
     Json 409 (JObj
       [(''mensaje'',
         JStr ((case [''usuario''] of
                  [] \<Rightarrow> ''Email''
                | k # rest \<Rightarrow> if k = ''usuario'' then ''Usuario'' else ''Email'')
               @ '' ya existe''))])"
    by (rule t [THEN conjunct2, THEN conjunct2, THEN conjunct1, THEN mp])
       (simp add: duplicate_key_def)
  have 4: "register_catch prod_env (duplicate_key ''email'') =
     Json 409 (JObj
       [(''mensaje'',
         JStr ((case [''email''] of
                  [] \<Rightarrow> ''Email''
                | k # rest \<Rightarrow> if k = ''usuario'' then ''Usuario'' else ''Email'')
               @ '' ya existe''))])"
    by (rule t [THEN conjunct2, THEN conjunct2, THEN conjunct1, THEN mp])
       (simp add: duplicate_key_def)
  have 5: "register_catch prod_env ((duplicate_key ''email'')\<lparr>err_keyPattern := Some []\<rparr>) =
     Json 409 (JObj
       [(''mensaje'',
         JStr ((case ([] :: string list) of
                  [] \<Rightarrow> ''Email''
                | k # rest \<Rightarrow> if k = ''usuario'' then ''Usuario'' else ''Email'')
               @ '' ya existe''))])"
    by (rule t [THEN conjunct2, THEN conjunct2, THEN conjunct1, THEN mp])
       (simp add: duplicate_key_def)
  have 6: "status (register_catch prod_env validation_failure) = Some 500"
    by (rule t [THEN conjunct2, THEN conjunct2, THEN conjunct2, THEN conjunct1, THEN mp])
       (simp add: validation_failure_def)
  from 1 2 3 4 5 6 show ?thesis by (simp add: connection_lost_def)
qed

subsection \<open>C6: when the message of a failure is in the reply\<close>

text \<open>
  C6, as stated: the message of the failure is in the reply if and only if the mode is
  not production. It fails: with \<^verbatim>\<open>NODE_ENV\<close> unset, which is not production, the list
  handler answers a lost connection with the generic text.
\<close>

theorem details_non_production_counterexample:
  "NODE_ENV unset_env \<noteq> Some ''production'' \<and>
   get_respuestas unset_env (failing_gateway connection_lost) (0::nat) =
     Json 500 (JObj
       [(''error'', JStr ''Error al obtener respuestas''),
        (''details'', JStr ''Error interno del servidor'')])"
  by (simp add: get_respuestas_def get_respuestas_catch_def failing_gateway_def details_def
        unset_env_def connection_lost_def)

text \<open>
  C6, amended: in the 500 replies of the list, statistics, login, register, delete-one
  and delete-all handlers, the message of the failure is the \<^verbatim>\<open>details\<close> of the reply when
  \<^verbatim>\<open>NODE_ENV\<close> is exactly \<^verbatim>\<open>development\<close>; in every other mode, production and unset
  included, a fixed text stands there and the reply of these handlers does not depend on
  the text of the message.
\<close>

theorem details_only_in_development:
  "(NODE_ENV e = Some ''development'' \<longrightarrow>
      js_get (reply_body (get_respuestas_catch e err)) ''details'' = JStr (err_message err) \<and>
      js_get (reply_body (get_estadisticas_catch e err)) ''details'' = JStr (err_message err) \<and>
      js_get (reply_body (login_catch e err)) ''details'' = JStr (err_message err) \<and>
      js_get (reply_body (delete_respuesta_catch e err)) ''details'' = JStr (err_message err) \<and>
      js_get (reply_body (delete_respuestas_catch e err)) ''details'' = JStr (err_message err) \<and>
      (err_code err \<noteq> JNum 11000 \<longrightarrow>
         js_get (reply_body (register_catch e err)) ''details'' = JStr (err_message err))) \<and>
   (NODE_ENV e \<noteq> Some ''development'' \<longrightarrow>
      get_respuestas_catch e (err\<lparr>err_message := m\<rparr>) = get_respuestas_catch e err \<and>
      get_estadisticas_catch e (err\<lparr>err_message := m\<rparr>) = get_estadisticas_catch e err \<and>
      login_catch e (err\<lparr>err_message := m\<rparr>) = login_catch e err \<and>
      delete_respuesta_catch e (err\<lparr>err_message := m\<rparr>) = delete_respuesta_catch e err \<and>
      delete_respuestas_catch e (err\<lparr>err_message := m\<rparr>) = delete_respuestas_catch e err \<and>
      register_catch e (err\<lparr>err_message := m\<rparr>) = register_catch e err)"
  by (simp add: catches register_catch_def details_def)

theorem details_only_in_development_witness:
  "js_get (reply_body (login_catch dev_env connection_lost)) ''details'' = JStr ''connection lost'' \<and>
   js_get (reply_body (register_catch dev_env connection_lost)) ''details''
     = JStr ''connection lost'' \<and>
   login_catch prod_env (connection_lost\<lparr>err_message := ''otro texto''\<rparr>)
     = login_catch prod_env connection_lost \<and>
   register_catch unset_env (connection_lost\<lparr>err_message := ''otro texto''\<rparr>)
     = register_catch unset_env connection_lost"
proof -
  note t = details_only_in_development
  have d: "NODE_ENV dev_env = Some ''development''" by (simp add: dev_env_def)
  have p: "NODE_ENV prod_env \<noteq> Some ''development''" by (simp add: prod_env_def)
  have u: "NODE_ENV unset_env \<noteq> Some ''development''" by (simp add: unset_env_def)
  have c: "err_code connection_lost \<noteq> JNum 11000" by (simp add: connection_lost_def)
  have m: "err_message connection_lost = ''connection lost''" by (simp add: connection_lost_def)
  from t [where e = dev_env and err = connection_lost, THEN conjunct1, THEN mp, OF d] c m
       t [where e = prod_env and err = connection_lost and m = "''otro texto''",
          THEN conjunct2, THEN mp, OF p]
       t [where e = unset_env and err = connection_lost and m = "''otro texto''",
          THEN conjunct2, THEN mp, OF u]
  show ?thesis by simp
qed

subsection \<open>C7: DELETE /api/respuestas, then list and statistics\<close>

text \<open>
  C7. When the delete-all call of the gateway succeeds, the reply is 200 and carries the
  count it reports. On the store in memory the operation removes every response and the
  count is the number of responses there were; on the store it leaves, the list endpoint
  answers 200 with the empty sequence and the statistics endpoint reports total 0.
\<close>

theorem delete_all_then_empty:
  "(respuesta_deleteMany gw s = Inr (n, s') \<longrightarrow>
      delete_respuestas e gw s =
        (Json 200 (JObj
           [(''mensaje'', JStr (show_nat n @ '' respuestas eliminadas correctamente''))]), s')) \<and>
   delete_respuestas e (mem_gateway base) st =
     (Json 200 (JObj
        [(''mensaje'',
          JStr (show_nat (length (st_respuestas st)) @ '' respuestas eliminadas correctamente''))]),
      st\<lparr>st_respuestas := []\<rparr>) \<and>
   st_respuestas (snd (delete_respuestas e (mem_gateway base) st)) = [] \<and>
   get_respuestas e (mem_gateway base) (snd (delete_respuestas e (mem_gateway base) st)) =
     Json 200 (JArr []) \<and>
   get_estadisticas e (mem_gateway base) now stamp
       (snd (delete_respuestas e (mem_gateway base) st)) =
     Json 200 (JObj [(''total'', JNum 0), (''ultimaSemana'', JNum 0), (''timestamp'', JStr stamp)])"
  by (simp add: delete_respuestas_def get_respuestas_def get_estadisticas_def mem_gateway_def)

theorem delete_all_then_empty_witness:
  "delete_respuestas prod_env counting_gateway 12 =
     (Json 200 (JObj [(''mensaje'', JStr ''12 respuestas eliminadas correctamente'')]), 0) \<and>
   delete_respuestas prod_env (mem_gateway (failing_gateway connection_lost)) two_surveys =
     (Json 200 (JObj [(''mensaje'', JStr ''2 respuestas eliminadas correctamente'')]),
      \<lparr>st_respuestas = [], st_users = []\<rparr>) \<and>
   get_respuestas prod_env (mem_gateway (failing_gateway connection_lost))
       \<lparr>st_respuestas = [], st_users = []\<rparr> = Json 200 (JArr []) \<and>
   get_estadisticas prod_env (mem_gateway (failing_gateway connection_lost)) 5000 ''t''
       \<lparr>st_respuestas = [], st_users = []\<rparr> =
     Json 200 (JObj [(''total'', JNum 0), (''ultimaSemana'', JNum 0), (''timestamp'', JStr ''t'')])"
proof -
  note t = delete_all_then_empty
  have 12: "show_nat 12 = ''12''"
    by (simp add: show_nat.simps [of 12] show_nat_small)
  have 1: "delete_respuestas prod_env counting_gateway 12 =
     (Json 200 (JObj
        [(''mensaje'', JStr (show_nat 12 @ '' respuestas eliminadas correctamente''))]), 0)"
    by (rule t [THEN conjunct1, THEN mp]) (simp add: counting_gateway_def)
  have 2: "delete_respuestas prod_env (mem_gateway (failing_gateway connection_lost)) two_surveys =
     (Json 200 (JObj [(''mensaje'', JStr ''2 respuestas eliminadas correctamente'')]),
      \<lparr>st_respuestas = [], st_users = []\<rparr>)"
    by (simp add: t [THEN conjunct2, THEN conjunct1] two_surveys_def show_nat_small)
  from t [where e = prod_env and base = "failing_gateway connection_lost" and st = two_surveys
            and now = 5000 and stamp = "''t''", THEN conjunct2, THEN conjunct2, THEN conjunct2]
  have 3: "get_respuestas prod_env (mem_gateway (failing_gateway connection_lost))
       \<lparr>st_respuestas = [], st_users = []\<rparr> = Json 200 (JArr []) \<and>
   get_estadisticas prod_env (mem_gateway (failing_gateway connection_lost)) 5000 ''t''
       \<lparr>st_respuestas = [], st_users = []\<rparr> =
     Json 200 (JObj [(''total'', JNum 0), (''ultimaSemana'', JNum 0), (''timestamp'', JStr ''t'')])"
    by (simp add: 2)
  from 1 2 3 12 show ?thesis by simp
qed

subsection \<open>C8: the seven-day count of GET /api/estadisticas\<close>

text \<open>
  C8, as stated, ends with: the reply always has status 200. It fails: when a count is
  rejected by the gateway (a lost connection), the handler answers 500.
\<close>

theorem estadisticas_failure_counterexample:
  "get_estadisticas prod_env (failing_gateway connection_lost) 5000 ''t'' two_surveys =
     Json 500 (JObj
       [(''error'', JStr (''Error al obtener estad'' @ [CHR 0xED] @ ''sticas'')),
        (''details'', JStr ''Error interno del servidor'')])"
  by (simp add: get_estadisticas_def get_estadisticas_catch_def failing_gateway_def details_def
        prod_env_def connection_lost_def)

text \<open>
  C8, amended: the handler asks for the number of records whose creation timestamp is at
  or after \<open>now - 7 * 24 * 60 * 60 * 1000\<close> milliseconds. On the store in memory the
  seven-day count is the number of exactly those records: a record created exactly
  \<open>7 * 24\<close> hours ago is counted, a record created before that is not. Whenever both
  counts succeed the reply is 200 and carries the total, the seven-day count and the
  timestamp; when one of them is rejected the reply is 500.
\<close>

theorem estadisticas_last_week:
  "get_estadisticas e (mem_gateway base) now stamp st =
     Json 200 (JObj
       [(''total'', JNum (int (length (st_respuestas st)))),
        (''ultimaSemana'',
         JNum (int (length (filter (\<lambda>r. now - 604800000 \<le> s_createdAt r) (st_respuestas st))))),
        (''timestamp'', JStr stamp)]) \<and>
   (s_createdAt r = now - 604800000 \<longrightarrow>
      get_estadisticas e (mem_gateway base) now stamp \<lparr>st_respuestas = [r], st_users = us\<rparr> =
        Json 200 (JObj
          [(''total'', JNum 1), (''ultimaSemana'', JNum 1), (''timestamp'', JStr stamp)])) \<and>
   (s_createdAt r < now - 604800000 \<longrightarrow>
      get_estadisticas e (mem_gateway base) now stamp \<lparr>st_respuestas = [r], st_users = us\<rparr> =
        Json 200 (JObj
          [(''total'', JNum 1), (''ultimaSemana'', JNum 0), (''timestamp'', JStr stamp)])) \<and>
   (respuesta_count gw s = Inr n \<and> respuesta_count_gte gw (now - 604800000) s = Inr k \<longrightarrow>
      get_estadisticas e gw now stamp s =
        Json 200 (JObj
          [(''total'', JNum (int n)), (''ultimaSemana'', JNum (int k)),
           (''timestamp'', JStr stamp)])) \<and>
   (respuesta_count gw s = Inl err \<longrightarrow>
      get_estadisticas e gw now stamp s = get_estadisticas_catch e err) \<and>
   (respuesta_count gw s = Inr n \<and> respuesta_count_gte gw (now - 604800000) s = Inl err \<longrightarrow>
      get_estadisticas e gw now stamp s = get_estadisticas_catch e err) \<and>
   status (get_estadisticas_catch e err) = Some 500"
  by (simp add: get_estadisticas_def mem_gateway_def get_estadisticas_catch_def)

text \<open>
  At \<open>now = 604802000\<close> the window opens at 2000: of the two stored responses, created at
  1000 and at 2000, one is counted; a single response created at 2000 is counted and one
  created at 1999 is not.
\<close>

theorem estadisticas_last_week_witness:
  "get_estadisticas prod_env (mem_gateway (failing_gateway connection_lost)) 604802000 ''t''
       two_surveys =
     Json 200 (JObj [(''total'', JNum 2), (''ultimaSemana'', JNum 1), (''timestamp'', JStr ''t'')]) \<and>
   get_estadisticas prod_env (mem_gateway (failing_gateway connection_lost)) 604802000 ''t''
       \<lparr>st_respuestas = [\<lparr>s_id = ''b'', s_createdAt = 2000, s_doc = JNull\<rparr>], st_users = []\<rparr> =
     Json 200 (JObj [(''total'', JNum 1), (''ultimaSemana'', JNum 1), (''timestamp'', JStr ''t'')]) \<and>
   get_estadisticas prod_env (mem_gateway (failing_gateway connection_lost)) 604802000 ''t''
       \<lparr>st_respuestas = [\<lparr>s_id = ''a'', s_createdAt = 1999, s_doc = JNull\<rparr>], st_users = []\<rparr> =
     Json 200 (JObj [(''total'', JNum 1), (''ultimaSemana'', JNum 0), (''timestamp'', JStr ''t'')]) \<and>
   get_estadisticas prod_env counting_gateway 604802000 ''t'' 7 =
     Json 200 (JObj [(''total'', JNum 7), (''ultimaSemana'', JNum 7), (''timestamp'', JStr ''t'')]) \<and>
   get_estadisticas prod_env (failing_gateway connection_lost) 604802000 ''t'' (0::nat) =
     get_estadisticas_catch prod_env connection_lost"
proof -
  note t = estadisticas_last_week
  note t2 = t [THEN conjunct2]
  note t3 = t2 [THEN conjunct2]
  note t4 = t3 [THEN conjunct2]
  note t5 = t4 [THEN conjunct2]
  have 1: "get_estadisticas prod_env (mem_gateway (failing_gateway connection_lost)) 604802000 ''t''
       two_surveys =
     Json 200 (JObj [(''total'', JNum 2), (''ultimaSemana'', JNum 1), (''timestamp'', JStr ''t'')])"
    by (simp add: t [THEN conjunct1] two_surveys_def)
  have 2: "get_estadisticas prod_env (mem_gateway (failing_gateway connection_lost)) 604802000 ''t''
       \<lparr>st_respuestas = [\<lparr>s_id = ''b'', s_createdAt = 2000, s_doc = JNull\<rparr>], st_users = []\<rparr> =
     Json 200 (JObj [(''total'', JNum 1), (''ultimaSemana'', JNum 1), (''timestamp'', JStr ''t'')])"
    by (rule t2 [THEN conjunct1, THEN mp]) simp
  have 3: "get_estadisticas prod_env (mem_gateway (failing_gateway connection_lost)) 604802000 ''t''
       \<lparr>st_respuestas = [\<lparr>s_id = ''a'', s_createdAt = 1999, s_doc = JNull\<rparr>], st_users = []\<rparr> =
     Json 200 (JObj [(''total'', JNum 1), (''ultimaSemana'', JNum 0), (''timestamp'', JStr ''t'')])"
    by (rule t3 [THEN conjunct1, THEN mp]) simp
  have 4: "get_estadisticas prod_env counting_gateway 604802000 ''t'' 7 =
     Json 200 (JObj [(''total'', JNum (int 7)), (''ultimaSemana'', JNum (int 7)),
                     (''timestamp'', JStr ''t'')])"
    by (rule t4 [THEN conjunct1, THEN mp]) (simp add: counting_gateway_def)
  have 5: "get_estadisticas prod_env (failing_gateway connection_lost) 604802000 ''t'' (0::nat) =
     get_estadisticas_catch prod_env connection_lost"
    by (rule t5 [THEN conjunct1, THEN mp]) (simp add: failing_gateway_def)
  from 1 2 3 4 5 show ?thesis by simp
qed

subsection \<open>C10: the length rules of register on values that are not strings\<close>

text \<open>
  C10. A number has no \<^verbatim>\<open>length\<close>, and the comparison of undefined with 8 or with 4 is
  false. So a register request with the right token, all three fields present and a
  password that is a number other than zero is not rejected by the password rule: with a
  usuario of at least four characters it reaches the gateway, and the reply is what the
  gateway decides. The same holds for the usuario rule when usuario is a number other
  than zero and the password a string of at least eight characters.
\<close>

theorem register_length_bypass:
  "length_lt coerce (JNum n) 8 = Some False \<and> length_lt coerce (JNum n) 4 = Some False \<and>
   (strict_eq_env (js_get body ''token'') (ADMIN_REGISTER_TOKEN e) \<and>
    js_get body ''usuario'' = JStr u \<and> 4 \<le> length u \<and> \<not> falsy (js_get body ''email'') \<and>
    js_get body ''password'' = JNum n \<and> n \<noteq> 0 \<longrightarrow>
      register e coerce gw body st =
        (case user_save gw (JStr u) (js_get body ''email'') (JNum n) st of
           Inl err \<Rightarrow> (register_catch e err, st)
         | Inr st' \<Rightarrow> (registrado, st'))) \<and>
   (strict_eq_env (js_get body ''token'') (ADMIN_REGISTER_TOKEN e) \<and>
    js_get body ''usuario'' = JNum n \<and> n \<noteq> 0 \<and> \<not> falsy (js_get body ''email'') \<and>
    js_get body ''password'' = JStr p \<and> 8 \<le> length p \<longrightarrow>
      register e coerce gw body st =
        (case user_save gw (JNum n) (js_get body ''email'') (JStr p) st of
           Inl err \<Rightarrow> (register_catch e err, st)
         | Inr st' \<Rightarrow> (registrado, st')))"
proof -
  have a: "length_lt coerce (JNum n) 8 = Some False \<and> length_lt coerce (JNum n) 4 = Some False"
    by (simp add: length_lt_def)
  have b: "strict_eq_env (js_get body ''token'') (ADMIN_REGISTER_TOKEN e) \<and>
    js_get body ''usuario'' = JStr u \<and> 4 \<le> length u \<and> \<not> falsy (js_get body ''email'') \<and>
    js_get body ''password'' = JNum n \<and> n \<noteq> 0 \<longrightarrow>
      register e coerce gw body st =
        (case user_save gw (JStr u) (js_get body ''email'') (JNum n) st of
           Inl err \<Rightarrow> (register_catch e err, st)
         | Inr st' \<Rightarrow> (registrado, st'))"
    by (auto simp: register_def register_fields_def length_lt_def)
  have c: "strict_eq_env (js_get body ''token'') (ADMIN_REGISTER_TOKEN e) \<and>
    js_get body ''usuario'' = JNum n \<and> n \<noteq> 0 \<and> \<not> falsy (js_get body ''email'') \<and>
    js_get body ''password'' = JStr p \<and> 8 \<le> length p \<longrightarrow>
      register e coerce gw body st =
        (case user_save gw (JNum n) (js_get body ''email'') (JStr p) st of
           Inl err \<Rightarrow> (register_catch e err, st)
         | Inr st' \<Rightarrow> (registrado, st'))"
    by (auto simp: register_def register_fields_def length_lt_def)
  from a b c show ?thesis by blast
qed

text \<open>
  The password 1234567 sent as a number, and the usuario 7 sent as a number, both pass
  the length rules and are saved by a gateway that accepts them.
\<close>

theorem register_length_bypass_witness:
  "register prod_env never counting_gateway
       (register_body (JStr ''s3cret'') (JStr ''admin'') (JStr ''admin@mercado.pe'') (JNum 1234567)) 0
     = (registrado, 1) \<and>
   register prod_env never counting_gateway
       (register_body (JStr ''s3cret'') (JNum 7) (JStr ''admin@mercado.pe'') (JStr ''12345678'')) 0
     = (registrado, 1)"
proof -
  note t = register_length_bypass [THEN conjunct2, THEN conjunct2]
  have 1: "register prod_env never counting_gateway
       (register_body (JStr ''s3cret'') (JStr ''admin'') (JStr ''admin@mercado.pe'') (JNum 1234567)) 0
     = (case user_save counting_gateway (JStr ''admin'')
               (js_get (register_body (JStr ''s3cret'') (JStr ''admin'')
                          (JStr ''admin@mercado.pe'') (JNum 1234567)) ''email'')
               (JNum 1234567) 0 of
           Inl err \<Rightarrow> (register_catch prod_env err, 0)
         | Inr st' \<Rightarrow> (registrado, st'))"
    by (rule t [THEN conjunct1, THEN mp]) (simp add: register_body_def prod_env_def)
  have 2: "register prod_env never counting_gateway
       (register_body (JStr ''s3cret'') (JNum 7) (JStr ''admin@mercado.pe'') (JStr ''12345678'')) 0
     = (case user_save counting_gateway (JNum 7)
               (js_get (register_body (JStr ''s3cret'') (JNum 7)
                          (JStr ''admin@mercado.pe'') (JStr ''12345678'')) ''email'')
               (JStr ''12345678'') 0 of
           Inl err \<Rightarrow> (register_catch prod_env err, 0)
         | Inr st' \<Rightarrow> (registrado, st'))"
    by (rule t [THEN conjunct2, THEN mp]) (simp add: register_body_def prod_env_def)
  from 1 2 show ?thesis by (simp add: counting_gateway_def)
qed

end
